theory Spec2Isabelle
  imports Main "HOL-Library.Sublist"
begin

section \<open>The text-generation dashboard notebook\<close>

text \<open>
  The repository is one Jupyter notebook, \<^verbatim>\<open>examples/text-generation/text-generation.ipynb\<close>.
  Its code cells are straight-line Python and IPython shell escapes. The notebook imports a
  module \<^verbatim>\<open>utils\<close> and calls two of its functions; the module's own text is not part of
  the sources at hand.
\<close>

subsection \<open>Python values rendered as text\<close>

text \<open>
  Python's \<^verbatim>\<open>str(n)\<close> (and \<^verbatim>\<open>{n}\<close> in a format string) on an integer: the decimal
  digits, most significant first, with a leading minus sign for a negative number.
\<close>

definition digit_char :: "nat \<Rightarrow> char" where
  "digit_char d = ''0123456789'' ! d"

fun str_nat :: "nat \<Rightarrow> string" where
  "str_nat n = (if n < 10 then [digit_char n] else str_nat (n div 10) @ [digit_char (n mod 10)])"

declare str_nat.simps [simp del]

definition str_int :: "int \<Rightarrow> string" where
  "str_int i = (if i < 0 then CHR ''-'' # str_nat (nat (- i)) else str_nat (nat i))"

subsection \<open>The two helpers of the utils module\<close>

text \<open>
  The notebook says where the dashboard is reached: all local ports are accessed through the
  Jupyter server proxy at \<^verbatim>\<open>https://{notebook-url}/proxy/{port}\<close>. The helper is called
  with the port alone, so the notebook's own address is a parameter of the model.
\<close>

definition get_dashboard_url :: "string \<Rightarrow> int \<Rightarrow> string" where
  \<comment> \<open>Modelled from the spec: the body of utils.get_dashboard_url is missing; the spec says
      it is a pure string-formatting utility that produces a URL containing the given port
      number, and the notebook gives the form of the URL.\<close>
  "get_dashboard_url notebook_url port =
     ''https://'' @ notebook_url @ ''/proxy/'' @ str_int port"

text \<open>
  The run command: \<^verbatim>\<open>docker run\<close> with the local port mapped to port 80 of the container
  (where, by the notebook, the Streamlit server listens), a volume mount when a local
  directory is given, the debug setting when asked for, and the image name last.
  \<^verbatim>\<open>local_dir_mount\<close> is optional in the source (the second call site omits it):
  \<open>None\<close> is the omitted argument.
\<close>

definition get_docker_run_command :: "int \<Rightarrow> string \<Rightarrow> string option \<Rightarrow> bool \<Rightarrow> string" where
  \<comment> \<open>Modelled from the spec: the body of utils.get_docker_run_command is missing; the spec
      says the run-command builder includes the port mapping and the image name, a volume
      mount flag when a local directory is specified and a debug flag when requested. The
      spelling of the two flags and the mount point inside the container are the model's.\<close>
  "get_docker_run_command port image_name local_dir_mount debug =
     ''docker run -p '' @ str_int port @ '':80''
     @ (case local_dir_mount of None \<Rightarrow> [] | Some d \<Rightarrow> '' -v '' @ d @ '':/usr/src/app/src'')
     @ (if debug then '' --env DASHBOARD_DEBUG=true'' else [])
     @ '' '' @ image_name"

text \<open>
  The part of a run command between the port mapping and the trailing image name: the
  place where the optional flags stand.
\<close>

definition run_options :: "int \<Rightarrow> string \<Rightarrow> string \<Rightarrow> string" where
  "run_options port image_name cmd =
     drop (length (''docker run -p '' @ str_int port @ '':80''))
       (take (length cmd - length ('' '' @ image_name)) cmd)"

definition has_volume_flag :: "string \<Rightarrow> bool" where
  "has_volume_flag opts = prefix '' -v '' opts"

definition has_debug_flag :: "string \<Rightarrow> bool" where
  "has_debug_flag opts = suffix '' --env DASHBOARD_DEBUG=true'' opts"


subsection \<open>Exceptions, external calls and the session\<close>

text \<open>
  Two kinds of exception reach the notebook's code: the \<^verbatim>\<open>KeyError\<close> of
  \<^verbatim>\<open>os.environ[k]\<close> on a variable that is not set, and whatever an SDK call raises
  (kept opaque).
\<close>

datatype exn = KeyError string | Raised string

record pytorch_model =
  name :: string
  model_data :: string
  entry_point :: string
  source_dir :: string
  role :: string
  framework_version :: string
  py_version :: string
  code_location :: string

record deployment =
  endpoint_name :: string
  instance_type :: string
  initial_instance_count :: int

datatype predictor = Predictor string

text \<open>
  What the notebook asks of its collaborators, one constructor per kind of call. A
  \<open>Shell\<close> call carries the text of an IPython \<^verbatim>\<open>!\<close> line after the \<^verbatim>\<open>{variable}\<close>
  fields have been filled in.
\<close>

datatype call =
    LoadDotenv
  | TokenizerFromPretrained string string
  | ModelFromPretrained string string
  | Shell string
  | GetExecutionRole
  | PyTorchModel pytorch_model
  | Deploy pytorch_model deployment
  | Warn string
  | Print string
  | DeleteEndpoint predictor
  | DeleteModel predictor

text \<open>
  The interactive session: the process environment, the \<^verbatim>\<open>.env\<close> file (whether
  \<^verbatim>\<open>../../.env\<close> exists, and the variables \<^verbatim>\<open>load_dotenv\<close> reads from it), the
  answers of the collaborators that the code uses (the execution role, the notebook's own
  address), the exception each call raises if any (by the position of the call in the
  run), and the calls made so far.
\<close>

record session =
  environ :: "string \<rightharpoonup> string"
  dotenv_exists :: bool
  dotenv :: "string \<rightharpoonup> string"
  execution_role :: string
  notebook_url :: string
  fault :: "nat \<Rightarrow> exn option"
  trace :: "call list"

type_synonym 'a nb = "session \<Rightarrow> (exn + 'a) \<times> session"

definition nb_return :: "'a \<Rightarrow> 'a nb" where
  "nb_return v s = (Inr v, s)"

text \<open>Sequencing: an exception of the first part ends the run, as Python's does.\<close>

definition nb_bind :: "'a nb \<Rightarrow> ('a \<Rightarrow> 'b nb) \<Rightarrow> 'b nb" where
  "nb_bind m f s = (case m s of (Inl e, s') \<Rightarrow> (Inl e, s') | (Inr v, s') \<Rightarrow> f v s')"

definition nb_then :: "unit nb \<Rightarrow> 'b nb \<Rightarrow> 'b nb" where
  "nb_then m n = nb_bind m (\<lambda>_. n)"

text \<open>A call into a library: it is recorded, and it raises what the session says.\<close>

definition external :: "call \<Rightarrow> unit nb" where
  "external c s =
     (case fault s (length (trace s)) of
        None \<Rightarrow> (Inr (), s\<lparr>trace := trace s @ [c]\<rparr>)
      | Some e \<Rightarrow> (Inl e, s\<lparr>trace := trace s @ [c]\<rparr>))"

text \<open>
  Calls that raise nothing: IPython's \<^verbatim>\<open>!\<close> runs the line in a subshell and reports a
  non-zero exit status without raising; \<^verbatim>\<open>warnings.warn\<close> and \<^verbatim>\<open>print\<close> write to
  the cell's output.
\<close>

definition emit :: "call \<Rightarrow> unit nb" where
  "emit c s = (Inr (), s\<lparr>trace := trace s @ [c]\<rparr>)"

definition shell :: "string \<Rightarrow> unit nb" where
  "shell cmd = emit (Shell cmd)"

definition os_environ :: "string \<Rightarrow> string nb" where
  "os_environ k s = (case environ s k of None \<Rightarrow> (Inl (KeyError k), s) | Some v \<Rightarrow> (Inr v, s))"

definition dotenv_filepath_exists :: "bool nb" where
  "dotenv_filepath_exists s = (Inr (dotenv_exists s), s)"

text \<open>
  \<^verbatim>\<open>load_dotenv()\<close> adds the variables of the \<^verbatim>\<open>.env\<close> file to the environment; by
  default a variable that is already set keeps its value.
\<close>

definition load_dotenv :: "unit nb" where
  "load_dotenv =
     nb_then (external LoadDotenv) (\<lambda>s. (Inr (), s\<lparr>environ := dotenv s ++ environ s\<rparr>))"

definition get_execution_role :: "string nb" where
  "get_execution_role = nb_then (external GetExecutionRole) (\<lambda>s. (Inr (execution_role s), s))"

text \<open>
  The two helpers as the notebook calls them. By the spec they are string formatting with
  no state: a call returns its string and leaves the session as it was.
\<close>

definition utils_get_dashboard_url :: "int \<Rightarrow> string nb" where
  \<comment> \<open>Modelled from the spec: the helper is a pure string-formatting utility with no
      state; the notebook's address is read from the session, never written.\<close>
  "utils_get_dashboard_url port s = (Inr (get_dashboard_url (notebook_url s) port), s)"

definition utils_get_docker_run_command ::
  "int \<Rightarrow> string \<Rightarrow> string option \<Rightarrow> bool \<Rightarrow> string nb" where
  \<comment> \<open>Modelled from the spec: the helper is a pure string-formatting utility with no
      state.\<close>
  "utils_get_docker_run_command port image_name local_dir_mount debug s =
     (Inr (get_docker_run_command port image_name local_dir_mount debug), s)"

text \<open>Python's \<^verbatim>\<open>sep.join(items)\<close>.\<close>

fun join :: "string \<Rightarrow> string list \<Rightarrow> string" where
  "join sep [] = []"
| "join sep [x] = x"
| "join sep (x # y # zs) = x @ sep @ join sep (y # zs)"

definition newline :: string where
  "newline = [CHR 0x0A]"

subsection \<open>The code cells, in the order of the notebook\<close>

definition cell_load_config :: "unit nb" where
  "cell_load_config =
     nb_bind dotenv_filepath_exists (\<lambda>found. if found then load_dotenv else nb_return ())"

definition cell_pretrained :: "unit nb" where
  "cell_pretrained =
     nb_then (external (TokenizerFromPretrained ''distilgpt2'' ''./model_assets''))
             (external (ModelFromPretrained ''distilgpt2'' ''./model_assets''))"

definition cell_upload :: "string nb" where
  "cell_upload =
     nb_bind (os_environ ''DASHBOARD_S3_BUCKET'') (\<lambda>DASHBOARD_S3_BUCKET.
     nb_then (shell ''(cd model_assets && tar -czf ../model_assets.tar.gz *)'')
    (nb_then (shell (''aws s3 cp ./model_assets.tar.gz s3://'' @ DASHBOARD_S3_BUCKET))
             (nb_return DASHBOARD_S3_BUCKET)))"

definition cell_model :: "string \<Rightarrow> (string \<times> pytorch_model) nb" where
  "cell_model DASHBOARD_S3_BUCKET =
     nb_bind (os_environ ''DASHBOARD_SAGEMAKER_MODEL'') (\<lambda>model_name.
     nb_bind get_execution_role (\<lambda>execution_role.
     let model = \<lparr> name = model_name,
                   model_data = ''s3://'' @ DASHBOARD_S3_BUCKET @ ''/model_assets.tar.gz'',
                   entry_point = ''entry_point.py'',
                   source_dir = ''./model'',
                   role = execution_role,
                   framework_version = ''1.5.0'',
                   py_version = ''py3'',
                   code_location = ''s3://'' @ DASHBOARD_S3_BUCKET @ ''/code'' \<rparr>
     in nb_then (external (PyTorchModel model)) (nb_return (model_name, model))))"

definition cell_deploy :: "string \<Rightarrow> pytorch_model \<Rightarrow> predictor nb" where
  "cell_deploy model_name model =
     nb_then (external (Deploy model \<lparr> endpoint_name = model_name,
                                       instance_type = ''ml.c5.xlarge'',
                                       initial_instance_count = 1 \<rparr>))
             (nb_return (Predictor model_name))"

definition cell_build :: "string \<Rightarrow> string \<Rightarrow> unit nb" where
  "cell_build image_name model_name =
     shell (''(cd dashboard && docker build -t '' @ image_name
            @ '' --build-arg DASHBOARD_SAGEMAKER_MODEL='' @ model_name @ '' .)'')"

definition cell_run_development :: "int \<Rightarrow> string \<Rightarrow> unit nb" where
  "cell_run_development port image_name =
     nb_bind (utils_get_dashboard_url port) (\<lambda>url.
     nb_bind (utils_get_docker_run_command port image_name (Some ''./dashboard/src'') True)
       (\<lambda>command.
     nb_then (shell (''echo Dashboard URL: '' @ url)) (shell command)))"

definition cell_run_test :: "int \<Rightarrow> string \<Rightarrow> unit nb" where
  "cell_run_test port image_name =
     nb_bind (utils_get_dashboard_url port) (\<lambda>url.
     nb_bind (utils_get_docker_run_command port image_name None False) (\<lambda>command.
     nb_then (shell (''echo Dashboard URL: '' @ url)) (shell command)))"

definition cell_ecr_identifiers :: "(string \<times> string \<times> string) nb" where
  "cell_ecr_identifiers =
     nb_bind (os_environ ''AWS_ACCOUNT_ID'') (\<lambda>AWS_ACCOUNT_ID.
     nb_bind (os_environ ''AWS_REGION'') (\<lambda>AWS_REGION.
     nb_bind (os_environ ''DASHBOARD_ECR_REPOSITORY'') (\<lambda>DASHBOARD_ECR_REPOSITORY.
     nb_return (AWS_ACCOUNT_ID, AWS_REGION, DASHBOARD_ECR_REPOSITORY))))"

definition cell_push :: "string \<Rightarrow> string \<Rightarrow> string \<Rightarrow> string \<Rightarrow> unit nb" where
  "cell_push image_name AWS_ACCOUNT_ID AWS_REGION DASHBOARD_ECR_REPOSITORY =
     nb_then (shell (''docker tag '' @ image_name @ '' '' @ AWS_ACCOUNT_ID @ ''.dkr.ecr.''
                     @ AWS_REGION @ ''.amazonaws.com/'' @ DASHBOARD_ECR_REPOSITORY @ '':latest''))
    (nb_then (shell ''eval $(aws ecr get-login --no-include-email)'')
             (shell (''docker push '' @ AWS_ACCOUNT_ID @ ''.dkr.ecr.''
                     @ AWS_REGION @ ''.amazonaws.com/'' @ DASHBOARD_ECR_REPOSITORY @ '':latest'')))"

definition cell_ecs_identifiers :: "(string \<times> string) nb" where
  "cell_ecs_identifiers =
     nb_bind (os_environ ''DASHBOARD_ECS_CLUSTER'') (\<lambda>DASHBOARD_ECS_CLUSTER.
     nb_bind (os_environ ''DASHBOARD_ECR_SERVICE'') (\<lambda>DASHBOARD_ECR_SERVICE.
     nb_return (DASHBOARD_ECS_CLUSTER, DASHBOARD_ECR_SERVICE)))"

definition cell_service_start :: "string \<Rightarrow> string \<Rightarrow> unit nb" where
  "cell_service_start DASHBOARD_ECS_CLUSTER DASHBOARD_ECR_SERVICE =
     shell (''aws ecs update-service --cluster '' @ DASHBOARD_ECS_CLUSTER
            @ '' --service '' @ DASHBOARD_ECR_SERVICE @ '' --desired-count 2'')"

definition cell_url_identifiers :: "(string \<times> string) nb" where
  "cell_url_identifiers =
     nb_bind (os_environ ''DASHBOARD_URL'') (\<lambda>DASHBOARD_URL.
     nb_bind (os_environ ''DASHBOARD_ALB'') (\<lambda>DASHBOARD_ALB.
     nb_return (DASHBOARD_URL, DASHBOARD_ALB)))"

definition cname_warning :: "string \<Rightarrow> string \<Rightarrow> string" where
  "cname_warning DASHBOARD_URL DASHBOARD_ALB =
     newline @ join newline
       [''Add CNAME record on your domain before continuing!'',
        ''from: '' @ DASHBOARD_URL,
        ''to: '' @ DASHBOARD_ALB,
        ''Otherwise you will see '' @ [CHR 0x27] @ ''An error was encountered with the requested page''
          @ [CHR 0x27] @ '' with Amazon Cognito.'']"

definition cell_url :: "string \<Rightarrow> string \<Rightarrow> unit nb" where
  "cell_url DASHBOARD_URL DASHBOARD_ALB =
     nb_then (if DASHBOARD_URL \<noteq> DASHBOARD_ALB
              then emit (Warn (cname_warning DASHBOARD_URL DASHBOARD_ALB))
              else nb_return ())
             (emit (Print (''DASHBOARD_URL: https://'' @ DASHBOARD_URL)))"

definition cell_service_stop :: "string \<Rightarrow> string \<Rightarrow> unit nb" where
  "cell_service_stop DASHBOARD_ECS_CLUSTER DASHBOARD_ECR_SERVICE =
     shell (''aws ecs update-service --cluster '' @ DASHBOARD_ECS_CLUSTER
            @ '' --service '' @ DASHBOARD_ECR_SERVICE @ '' --desired-count 0'')"

definition cell_delete :: "predictor \<Rightarrow> unit nb" where
  "cell_delete predictor =
     nb_then (external (DeleteEndpoint predictor)) (external (DeleteModel predictor))"

text \<open>The notebook: its code cells from top to bottom.\<close>

definition notebook :: "unit nb" where
  "notebook =
     nb_then cell_load_config (
     nb_then cell_pretrained (
     nb_bind cell_upload (\<lambda>DASHBOARD_S3_BUCKET.
     nb_bind (cell_model DASHBOARD_S3_BUCKET) (\<lambda>(model_name, model).
     nb_bind (cell_deploy model_name model) (\<lambda>predictor.
     let image_name = ''dashboard'' in (
     nb_then (cell_build image_name model_name) (
     let port = 8501 in (
     nb_then (cell_run_development port image_name) (
     nb_then (cell_build image_name model_name) (
     nb_then (cell_run_test port image_name) (
     nb_bind cell_ecr_identifiers (\<lambda>(AWS_ACCOUNT_ID, AWS_REGION, DASHBOARD_ECR_REPOSITORY).
     nb_then (cell_push image_name AWS_ACCOUNT_ID AWS_REGION DASHBOARD_ECR_REPOSITORY) (
     nb_bind cell_ecs_identifiers (\<lambda>(DASHBOARD_ECS_CLUSTER, DASHBOARD_ECR_SERVICE).
     nb_then (cell_service_start DASHBOARD_ECS_CLUSTER DASHBOARD_ECR_SERVICE) (
     nb_bind cell_url_identifiers (\<lambda>(DASHBOARD_URL, DASHBOARD_ALB).
     nb_then (cell_url DASHBOARD_URL DASHBOARD_ALB) (
     nb_then (cell_service_stop DASHBOARD_ECS_CLUSTER DASHBOARD_ECR_SERVICE) (
     cell_delete predictor))))))))))))))))))"

text \<open>The calls a computation adds to the trace when run from a session.\<close>

definition calls :: "'a nb \<Rightarrow> session \<Rightarrow> call list" where
  "calls m s = drop (length (trace s)) (trace (snd (m s)))"

subsection \<open>A configured session\<close>

text \<open>The environment as the cells after the first one read it.\<close>

definition loaded_environ :: "session \<Rightarrow> string \<rightharpoonup> string" where
  "loaded_environ s = (if dotenv_exists s then dotenv s ++ environ s else environ s)"

text \<open>The nine resource identifiers the notebook reads from the environment.\<close>

record config =
  s3_bucket :: string
  sagemaker_model :: string
  aws_account_id :: string
  aws_region :: string
  ecr_repository :: string
  ecs_cluster :: string
  ecr_service :: string
  dashboard_url :: string
  dashboard_alb :: string

text \<open>
  A session at the start of a run in which every identifier is set and no call raises.
\<close>

definition configured :: "session \<Rightarrow> config \<Rightarrow> bool" where
  "configured s c \<longleftrightarrow>
     trace s = [] \<and> fault s = (\<lambda>_. None)
     \<and> loaded_environ s ''DASHBOARD_S3_BUCKET'' = Some (s3_bucket c)
     \<and> loaded_environ s ''DASHBOARD_SAGEMAKER_MODEL'' = Some (sagemaker_model c)
     \<and> loaded_environ s ''AWS_ACCOUNT_ID'' = Some (aws_account_id c)
     \<and> loaded_environ s ''AWS_REGION'' = Some (aws_region c)
     \<and> loaded_environ s ''DASHBOARD_ECR_REPOSITORY'' = Some (ecr_repository c)
     \<and> loaded_environ s ''DASHBOARD_ECS_CLUSTER'' = Some (ecs_cluster c)
     \<and> loaded_environ s ''DASHBOARD_ECR_SERVICE'' = Some (ecr_service c)
     \<and> loaded_environ s ''DASHBOARD_URL'' = Some (dashboard_url c)
     \<and> loaded_environ s ''DASHBOARD_ALB'' = Some (dashboard_alb c)"

text \<open>The model resource the notebook defines from a configuration.\<close>

definition model_of :: "session \<Rightarrow> config \<Rightarrow> pytorch_model" where
  "model_of s c =
     \<lparr> name = sagemaker_model c,
       model_data = ''s3://'' @ s3_bucket c @ ''/model_assets.tar.gz'',
       entry_point = ''entry_point.py'',
       source_dir = ''./model'',
       role = execution_role s,
       framework_version = ''1.5.0'',
       py_version = ''py3'',
       code_location = ''s3://'' @ s3_bucket c @ ''/code'' \<rparr>"

subsection \<open>Reading the calls of a run\<close>

text \<open>The last blank-separated word of a command line.\<close>

definition last_word :: "string \<Rightarrow> string" where
  "last_word cmd = rev (takeWhile (\<lambda>ch. ch \<noteq> CHR '' '') (rev cmd))"

definition is_update_service :: "call \<Rightarrow> bool" where
  "is_update_service c =
     (case c of Shell cmd \<Rightarrow> prefix ''aws ecs update-service '' cmd | _ \<Rightarrow> False)"

text \<open>
  The desired task count an \<^verbatim>\<open>aws ecs update-service\<close> command line asks for: the
  value of its \<^verbatim>\<open>--desired-count\<close> option, which closes the line in both places where
  the notebook has it.
\<close>

definition desired_count :: "call \<Rightarrow> string option" where
  "desired_count c =
     (case c of
        Shell cmd \<Rightarrow>
          if prefix ''aws ecs update-service '' cmd
             \<and> suffix ('' --desired-count '' @ last_word cmd) cmd
          then Some (last_word cmd) else None
      | _ \<Rightarrow> None)"


definition is_docker_tag :: "call \<Rightarrow> bool" where
  "is_docker_tag c = (case c of Shell cmd \<Rightarrow> prefix ''docker tag '' cmd | _ \<Rightarrow> False)"

definition is_docker_push :: "call \<Rightarrow> bool" where
  "is_docker_push c = (case c of Shell cmd \<Rightarrow> prefix ''docker push '' cmd | _ \<Rightarrow> False)"



definition is_print :: "call \<Rightarrow> bool" where
  "is_print c = (case c of Print _ \<Rightarrow> True | _ \<Rightarrow> False)"

definition defined_models :: "call list \<Rightarrow> pytorch_model list" where
  "defined_models = List.map_filter (\<lambda>c. case c of PyTorchModel m \<Rightarrow> Some m | _ \<Rightarrow> None)"

definition deployments :: "call list \<Rightarrow> (pytorch_model \<times> deployment) list" where
  "deployments = List.map_filter (\<lambda>c. case c of Deploy m d \<Rightarrow> Some (m, d) | _ \<Rightarrow> None)"


text \<open>
  What a call does for the deployment. The two output statements of the URL cell
  (\<^verbatim>\<open>warnings.warn\<close>, \<^verbatim>\<open>print\<close>) are the notebook's own and delegate nothing; a
  shell line that is none of the notebook's commands is \<open>UnknownCommand\<close>. A service
  update carries the desired count it asks for.
\<close>

datatype operation =
    LoadConfiguration
  | FetchTokenizer
  | FetchModel
  | PackageArtifacts
  | UploadArtifacts
  | GetRole
  | DefineModel
  | DeployEndpoint
  | BuildImage
  | ShowUrl
  | RunContainer
  | TagImage
  | RegistryLogin
  | PushImage
  | UpdateService string
  | RemoveEndpoint
  | RemoveModel
  | UnknownCommand

definition operation_of :: "call \<Rightarrow> operation option" where
  "operation_of c =
     (case c of
        LoadDotenv \<Rightarrow> Some LoadConfiguration
      | TokenizerFromPretrained _ _ \<Rightarrow> Some FetchTokenizer
      | ModelFromPretrained _ _ \<Rightarrow> Some FetchModel
      | Shell cmd \<Rightarrow> Some
          (if prefix ''(cd model_assets && tar '' cmd then PackageArtifacts
           else if prefix ''aws s3 cp '' cmd then UploadArtifacts
           else if prefix ''(cd dashboard && docker build '' cmd then BuildImage
           else if prefix ''echo Dashboard URL: '' cmd then ShowUrl
           else if prefix ''docker run '' cmd then RunContainer
           else if prefix ''docker tag '' cmd then TagImage
           else if prefix ''eval $(aws ecr get-login '' cmd then RegistryLogin
           else if prefix ''docker push '' cmd then PushImage
           else if prefix ''aws ecs update-service '' cmd then UpdateService (last_word cmd)
           else UnknownCommand)
      | GetExecutionRole \<Rightarrow> Some GetRole
      | PyTorchModel _ \<Rightarrow> Some DefineModel
      | Deploy _ _ \<Rightarrow> Some DeployEndpoint
      | Warn _ \<Rightarrow> None
      | Print _ \<Rightarrow> None
      | DeleteEndpoint _ \<Rightarrow> Some RemoveEndpoint
      | DeleteModel _ \<Rightarrow> Some RemoveModel)"



subsection \<open>An example session\<close>

definition example_config :: config where
  "example_config =
     \<lparr> s3_bucket = ''dashboard-bucket'',
       sagemaker_model = ''text-generation'',
       aws_account_id = ''123456789012'',
       aws_region = ''eu-west-1'',
       ecr_repository = ''dashboard-repo'',
       ecs_cluster = ''dashboard-cluster'',
       ecr_service = ''dashboard-service'',
       dashboard_url = ''dashboard.example.com'',
       dashboard_alb = ''alb-1.eu-west-1.elb.amazonaws.com'' \<rparr>"

definition example_session :: session where
  "example_session =
     \<lparr> environ = map_of
         [(''DASHBOARD_S3_BUCKET'', ''dashboard-bucket''),
          (''DASHBOARD_SAGEMAKER_MODEL'', ''text-generation''),
          (''AWS_ACCOUNT_ID'', ''123456789012''),
          (''AWS_REGION'', ''eu-west-1''),
          (''DASHBOARD_ECR_REPOSITORY'', ''dashboard-repo''),
          (''DASHBOARD_ECS_CLUSTER'', ''dashboard-cluster''),
          (''DASHBOARD_ECR_SERVICE'', ''dashboard-service''),
          (''DASHBOARD_URL'', ''dashboard.example.com''),
          (''DASHBOARD_ALB'', ''alb-1.eu-west-1.elb.amazonaws.com'')],
       dotenv_exists = False,
       dotenv = Map.empty,
       execution_role = ''arn:aws:iam::123456789012:role/notebook'',
       notebook_url = ''nb.notebook.eu-west-1.sagemaker.aws'',
       fault = (\<lambda>_. None),
       trace = [] \<rparr>"

subsection \<open>Exceptions in a run\<close>

text \<open>
  The calls that can raise: everything but the shell escapes and the two output
  statements. \<open>quiet s\<close> is the session \<open>s\<close> with no call raising. \<open>unraised f t lo hi\<close>:
  none of the calls of \<open>t\<close> at the positions from \<open>lo\<close> up to \<open>hi\<close> raised.
  \<open>propagated s r s'\<close>: the outcome \<open>r\<close> of a run from \<open>s\<close> to \<open>s'\<close> is what the first
  exception makes it. \<open>straight m\<close>: the computation \<open>m\<close> handles no exception and repeats
  no call.
\<close>

definition can_raise :: "call \<Rightarrow> bool" where
  "can_raise c = (case c of Shell _ \<Rightarrow> False | Warn _ \<Rightarrow> False | Print _ \<Rightarrow> False | _ \<Rightarrow> True)"

definition quiet :: "session \<Rightarrow> session" where
  "quiet s = s\<lparr>fault := (\<lambda>_. None)\<rparr>"

definition unraised :: "(nat \<Rightarrow> exn option) \<Rightarrow> call list \<Rightarrow> nat \<Rightarrow> nat \<Rightarrow> bool" where
  "unraised f t lo hi \<longleftrightarrow> (\<forall>i. lo \<le> i \<and> i < hi \<and> can_raise (t ! i) \<longrightarrow> f i = None)"

definition propagated :: "session \<Rightarrow> exn + 'a \<Rightarrow> session \<Rightarrow> bool" where
  "propagated s r s' \<longleftrightarrow>
     (case r of
        Inr v \<Rightarrow> unraised (fault s) (trace s') (length (trace s)) (length (trace s'))
      | Inl e \<Rightarrow>
          ((\<exists>k. e = KeyError k \<and> environ s' k = None)
             \<and> unraised (fault s) (trace s') (length (trace s)) (length (trace s')))
          \<or> (length (trace s) < length (trace s') \<and> can_raise (last (trace s'))
             \<and> fault s (length (trace s') - 1) = Some e
             \<and> unraised (fault s) (trace s') (length (trace s)) (length (trace s') - 1)))"

definition straight :: "'a nb \<Rightarrow> bool" where
  "straight m \<longleftrightarrow>
     (\<forall>s r s'. m s = (r, s') \<longrightarrow>
        fault s' = fault s \<and> prefix (trace s) (trace s') \<and> propagated s r s'
        \<and> (\<forall>v. r = Inr v \<longrightarrow> m (quiet s) = (Inr v, quiet s'))
        \<and> (\<forall>e. r = Inl e \<longrightarrow> prefix (trace s') (trace (snd (m (quiet s))))))"

text \<open>The example session, with the deployment of the endpoint failing.\<close>

definition failing_session :: session where
  "failing_session =
     example_session\<lparr>fault := (\<lambda>i. if i = 6 then Some (Raised ''ResourceLimitExceeded'') else None)\<rparr>"

section \<open>Properties of the helpers\<close>

lemma str_int_8501: "str_int 8501 = ''8501''"
  by (simp add: str_int_def digit_char_def str_nat.simps [of 8501] str_nat.simps [of 850]
      str_nat.simps [of 85] str_nat.simps [of 8])

lemma middle_of_three: "drop (length h) (take (length (h @ m @ t) - length t) (h @ m @ t)) = m"
  by simp

lemma run_options_eq:
  "run_options port image_name (get_docker_run_command port image_name m d) =
     (case m of None \<Rightarrow> [] | Some dir \<Rightarrow> '' -v '' @ dir @ '':/usr/src/app/src'')
     @ (if d then '' --env DASHBOARD_DEBUG=true'' else [])"
proof -
  let ?h = "''docker run -p '' @ str_int port @ '':80''"
  let ?m = "(case m of None \<Rightarrow> [] | Some dir \<Rightarrow> '' -v '' @ dir @ '':/usr/src/app/src'')
     @ (if d then '' --env DASHBOARD_DEBUG=true'' else [])"
  let ?t = "'' '' @ image_name"
  have "get_docker_run_command port image_name m d = ?h @ ?m @ ?t"
    by (simp add: get_docker_run_command_def)
  then show ?thesis
    unfolding run_options_def using middle_of_three [of ?h ?m ?t] by simp
qed

text \<open>
  Claim C2. For every port number, the string returned by get_dashboard_url is a URL
  (it starts with the https scheme) whose text contains the decimal representation of the
  port.
\<close>

theorem get_dashboard_url_contains_port:
  "prefix ''https://'' (get_dashboard_url host p)
   \<and> sublist (str_int p) (get_dashboard_url host p)"
proof
  show "prefix ''https://'' (get_dashboard_url host p)"
    unfolding get_dashboard_url_def by (rule prefixI) (rule refl)
next
  have "get_dashboard_url host p = (''https://'' @ host @ ''/proxy/'') @ str_int p @ []"
    by (simp add: get_dashboard_url_def)
  then show "sublist (str_int p) (get_dashboard_url host p)"
    unfolding sublist_def by blast
qed

lemma has_volume_flag_options:
  "has_volume_flag (run_options port image_name (get_docker_run_command port image_name m d))
     = (m \<noteq> None)"
  unfolding run_options_eq has_volume_flag_def
  by (cases m; cases d) simp_all

lemma has_debug_flag_options:
  "has_debug_flag (run_options port image_name (get_docker_run_command port image_name m d)) = d"
  unfolding run_options_eq has_debug_flag_def
  by (cases m; cases d) (simp_all add: suffix_to_prefix)

text \<open>
  Claim C1. For every port, image name, optional local directory and debug flag, the
  returned command contains the port mapping for the port and ends with the image name;
  its options (the text between the two) carry the volume mount flag if and only if a
  local directory is given, and the debug flag if and only if debug is requested.
\<close>

theorem get_docker_run_command_parts:
  "sublist (''-p '' @ str_int port @ '':80'') (get_docker_run_command port image_name m d)
   \<and> suffix ('' '' @ image_name) (get_docker_run_command port image_name m d)
   \<and> has_volume_flag (run_options port image_name (get_docker_run_command port image_name m d))
       = (m \<noteq> None)
   \<and> has_debug_flag (run_options port image_name (get_docker_run_command port image_name m d))
       = d"
proof (intro conjI)
  let ?opts = "(case m of None \<Rightarrow> [] | Some dir \<Rightarrow> '' -v '' @ dir @ '':/usr/src/app/src'')
     @ (if d then '' --env DASHBOARD_DEBUG=true'' else [])"
  have "get_docker_run_command port image_name m d
          = ''docker run '' @ (''-p '' @ str_int port @ '':80'') @ (?opts @ '' '' @ image_name)"
    by (simp add: get_docker_run_command_def)
  then show "sublist (''-p '' @ str_int port @ '':80'') (get_docker_run_command port image_name m d)"
    unfolding sublist_def by blast
  have "get_docker_run_command port image_name m d
          = (''docker run -p '' @ str_int port @ '':80'' @ ?opts) @ ('' '' @ image_name)"
    by (simp add: get_docker_run_command_def)
  then show "suffix ('' '' @ image_name) (get_docker_run_command port image_name m d)"
    unfolding suffix_def by blast
qed (rule has_volume_flag_options has_debug_flag_options)+

text \<open>
  The two call sites of the notebook: the development cell passes the local directory and
  debug, the test cell passes only the port and the image name.
\<close>

theorem get_docker_run_command_call_sites:
  "has_volume_flag (run_options 8501 ''dashboard''
      (get_docker_run_command 8501 ''dashboard'' (Some ''./dashboard/src'') True))
   \<and> has_debug_flag (run_options 8501 ''dashboard''
      (get_docker_run_command 8501 ''dashboard'' (Some ''./dashboard/src'') True))
   \<and> \<not> has_volume_flag (run_options 8501 ''dashboard''
      (get_docker_run_command 8501 ''dashboard'' None False))
   \<and> \<not> has_debug_flag (run_options 8501 ''dashboard''
      (get_docker_run_command 8501 ''dashboard'' None False))
   \<and> get_docker_run_command 8501 ''dashboard'' None False = ''docker run -p 8501:80 dashboard''"
  using get_docker_run_command_parts [of 8501 "''dashboard''" "Some ''./dashboard/src''" True]
        get_docker_run_command_parts [of 8501 "''dashboard''" None False]
  by (simp add: get_docker_run_command_def str_int_8501)


section \<open>A run of the notebook\<close>

lemmas nb_defs = nb_bind_def nb_then_def nb_return_def external_def emit_def shell_def
  os_environ_def dotenv_filepath_exists_def load_dotenv_def get_execution_role_def
  utils_get_dashboard_url_def utils_get_docker_run_command_def

lemmas cell_defs = cell_load_config_def cell_pretrained_def cell_upload_def cell_model_def
  cell_deploy_def cell_build_def cell_run_development_def cell_run_test_def
  cell_ecr_identifiers_def cell_push_def cell_ecs_identifiers_def cell_service_start_def
  cell_url_identifiers_def cell_url_def cell_service_stop_def cell_delete_def


lemma notebook_calls:
  assumes "configured s c"
  shows "calls notebook s =
    (if dotenv_exists s then [LoadDotenv] else []) @
    [TokenizerFromPretrained ''distilgpt2'' ''./model_assets'',
     ModelFromPretrained ''distilgpt2'' ''./model_assets'',
     Shell ''(cd model_assets && tar -czf ../model_assets.tar.gz *)'',
     Shell (''aws s3 cp ./model_assets.tar.gz s3://'' @ s3_bucket c),
     GetExecutionRole,
     PyTorchModel (model_of s c),
     Deploy (model_of s c) \<lparr> endpoint_name = sagemaker_model c,
       instance_type = ''ml.c5.xlarge'', initial_instance_count = 1 \<rparr>,
     Shell (''(cd dashboard && docker build -t dashboard --build-arg DASHBOARD_SAGEMAKER_MODEL=''
            @ sagemaker_model c @ '' .)''),
     Shell (''echo Dashboard URL: '' @ get_dashboard_url (notebook_url s) 8501),
     Shell (get_docker_run_command 8501 ''dashboard'' (Some ''./dashboard/src'') True),
     Shell (''(cd dashboard && docker build -t dashboard --build-arg DASHBOARD_SAGEMAKER_MODEL=''
            @ sagemaker_model c @ '' .)''),
     Shell (''echo Dashboard URL: '' @ get_dashboard_url (notebook_url s) 8501),
     Shell (get_docker_run_command 8501 ''dashboard'' None False),
     Shell (''docker tag dashboard '' @ aws_account_id c @ ''.dkr.ecr.'' @ aws_region c
            @ ''.amazonaws.com/'' @ ecr_repository c @ '':latest''),
     Shell ''eval $(aws ecr get-login --no-include-email)'',
     Shell (''docker push '' @ aws_account_id c @ ''.dkr.ecr.'' @ aws_region c
            @ ''.amazonaws.com/'' @ ecr_repository c @ '':latest''),
     Shell (''aws ecs update-service --cluster '' @ ecs_cluster c @ '' --service ''
            @ ecr_service c @ '' --desired-count 2'')] @
    (if dashboard_url c \<noteq> dashboard_alb c
     then [Warn (cname_warning (dashboard_url c) (dashboard_alb c))] else []) @
    [Print (''DASHBOARD_URL: https://'' @ dashboard_url c),
     Shell (''aws ecs update-service --cluster '' @ ecs_cluster c @ '' --service ''
            @ ecr_service c @ '' --desired-count 0''),
     DeleteEndpoint (Predictor (sagemaker_model c)),
     DeleteModel (Predictor (sagemaker_model c))]"
  using assms
  unfolding configured_def loaded_environ_def notebook_def cell_defs calls_def model_of_def
  by (cases "dotenv_exists s"; cases "dashboard_url c = dashboard_alb c")
     (simp_all add: nb_defs Let_def)

lemma example_configured: "configured example_session example_config"
  by (simp add: configured_def example_session_def example_config_def loaded_environ_def)

lemma last_word_append: "CHR '' '' \<notin> set w \<Longrightarrow> last_word (xs @ CHR '' '' # w) = w"
proof -
  assume w: "CHR '' '' \<notin> set w"
  then have "takeWhile (\<lambda>ch. ch \<noteq> CHR '' '') (rev w) = rev w"
    by (auto simp: takeWhile_eq_all_conv)
  then have "takeWhile (\<lambda>ch. ch \<noteq> CHR '' '') (rev w @ CHR '' '' # rev xs) = rev w"
    by (simp add: takeWhile_tail)
  then show ?thesis by (simp add: last_word_def)
qed

lemma desired_count_line:
  assumes "CHR '' '' \<notin> set w"
  shows "desired_count (Shell (''aws ecs update-service --cluster '' @ cl @ '' --service '' @ sv
              @ '' --desired-count '' @ w)) = Some w"
proof -
  let ?cmd = "''aws ecs update-service --cluster '' @ cl @ '' --service '' @ sv
              @ '' --desired-count '' @ w"
  have "?cmd = (''aws ecs update-service --cluster '' @ cl @ '' --service '' @ sv
              @ '' --desired-count'') @ CHR '' '' # w"
    by simp
  then have lw: "last_word ?cmd = w"
    using last_word_append [OF assms] by metis
  have pre: "prefix ''aws ecs update-service '' ?cmd"
    by simp
  have "?cmd = (''aws ecs update-service --cluster '' @ cl @ '' --service '' @ sv)
              @ ('' --desired-count '' @ w)"
    by simp
  then have suf: "suffix ('' --desired-count '' @ w) ?cmd"
    unfolding suffix_def by blast
  show ?thesis
    unfolding desired_count_def call.case lw using pre suf by (simp only: simp_thms if_True)
qed

lemma desired_count_2:
  "desired_count (Shell (''aws ecs update-service --cluster '' @ cl @ '' --service '' @ sv
              @ '' --desired-count 2'')) = Some ''2''"
  using desired_count_line [of "''2''" cl sv] by simp

lemma desired_count_0:
  "desired_count (Shell (''aws ecs update-service --cluster '' @ cl @ '' --service '' @ sv
              @ '' --desired-count 0'')) = Some ''0''"
  using desired_count_line [of "''0''" cl sv] by simp

lemma update_service_calls:
  assumes "configured s c"
  shows "filter is_update_service (calls notebook s) =
    [Shell (''aws ecs update-service --cluster '' @ ecs_cluster c @ '' --service ''
            @ ecr_service c @ '' --desired-count 2''),
     Shell (''aws ecs update-service --cluster '' @ ecs_cluster c @ '' --service ''
            @ ecr_service c @ '' --desired-count 0'')]"
  unfolding notebook_calls [OF assms]
  by (simp add: is_update_service_def get_docker_run_command_def)

text \<open>
  Claim C6. In a run of the whole notebook, update-service is invoked exactly twice, and
  the desired task counts it asks for are 2 (at dashboard deployment) and then 0 (at
  clean-up): no other value is ever requested.
\<close>

theorem desired_counts_two_then_zero:
  assumes "configured s c"
  shows "map desired_count (filter is_update_service (calls notebook s)) = [Some ''2'', Some ''0'']"
  unfolding update_service_calls [OF assms]
  by (simp only: list.map desired_count_2 desired_count_0)

lemma defined_models_run:
  assumes "configured s c"
  shows "defined_models (calls notebook s) = [model_of s c]"
  unfolding notebook_calls [OF assms] defined_models_def
  by (simp add: List.map_filter_def)

lemma deployments_run:
  assumes "configured s c"
  shows "deployments (calls notebook s) =
    [(model_of s c, \<lparr> endpoint_name = sagemaker_model c,
       instance_type = ''ml.c5.xlarge'', initial_instance_count = 1 \<rparr>)]"
  unfolding notebook_calls [OF assms] deployments_def
  by (simp add: List.map_filter_def)

lemma docker_tag_run:
  assumes "configured s c"
  shows "filter is_docker_tag (calls notebook s) =
    [Shell (''docker tag dashboard '' @ aws_account_id c @ ''.dkr.ecr.'' @ aws_region c
            @ ''.amazonaws.com/'' @ ecr_repository c @ '':latest'')]"
  unfolding notebook_calls [OF assms]
  by (simp add: is_docker_tag_def get_docker_run_command_def)

lemma docker_push_run:
  assumes "configured s c"
  shows "filter is_docker_push (calls notebook s) =
    [Shell (''docker push '' @ aws_account_id c @ ''.dkr.ecr.'' @ aws_region c
            @ ''.amazonaws.com/'' @ ecr_repository c @ '':latest'')]"
  unfolding notebook_calls [OF assms]
  by (simp add: is_docker_push_def get_docker_run_command_def)

text \<open>
  Claim C4. For every value of the environment identifiers: model_data is
  \<^verbatim>\<open>s3://\<close> + bucket + \<^verbatim>\<open>/model_assets.tar.gz\<close>, code_location is
  \<^verbatim>\<open>s3://\<close> + bucket + \<^verbatim>\<open>/code\<close>, and the image reference of the one docker tag
  command is character for character that of the one docker push command: account id,
  region and repository embedded verbatim, with the suffix \<^verbatim>\<open>:latest\<close>.
\<close>

theorem identifiers_passed_unmodified:
  assumes "configured s c"
  shows "\<exists>m ref.
           defined_models (calls notebook s) = [m]
         \<and> model_data m = ''s3://'' @ s3_bucket c @ ''/model_assets.tar.gz''
         \<and> code_location m = ''s3://'' @ s3_bucket c @ ''/code''
         \<and> ref = aws_account_id c @ ''.dkr.ecr.'' @ aws_region c @ ''.amazonaws.com/''
                  @ ecr_repository c @ '':latest''
         \<and> filter is_docker_tag (calls notebook s) = [Shell (''docker tag dashboard '' @ ref)]
         \<and> filter is_docker_push (calls notebook s) = [Shell (''docker push '' @ ref)]"
  unfolding defined_models_run [OF assms] docker_tag_run [OF assms] docker_push_run [OF assms]
  by (simp add: model_of_def)

text \<open>
  The same at the example session.
\<close>

theorem identifiers_passed_unmodified_example:
  "configured example_session example_config
   \<and> defined_models (calls notebook example_session) \<noteq> []
   \<and> model_data (hd (defined_models (calls notebook example_session)))
       = ''s3://dashboard-bucket/model_assets.tar.gz''
   \<and> code_location (hd (defined_models (calls notebook example_session)))
       = ''s3://dashboard-bucket/code''
   \<and> filter is_docker_tag (calls notebook example_session)
       = [Shell ''docker tag dashboard 123456789012.dkr.ecr.eu-west-1.amazonaws.com/dashboard-repo:latest'']
   \<and> filter is_docker_push (calls notebook example_session)
       = [Shell ''docker push 123456789012.dkr.ecr.eu-west-1.amazonaws.com/dashboard-repo:latest'']"
proof -
  have cfg: "configured example_session example_config"
    by (rule example_configured)
  from identifiers_passed_unmodified [OF cfg] show ?thesis
    using cfg by (auto simp: example_config_def)
qed

text \<open>
  Claim C5. The run defines one model resource, whose entry point is the single file
  \<^verbatim>\<open>entry_point.py\<close> within the source directory, and deploys that model once, to one
  instance, under an endpoint named as the model, the name being the value of
  DASHBOARD_SAGEMAKER_MODEL. (That the entry point provides the four handler functions is
  what the hosting SDK expects of the file; the notebook's code does not look into it.)
\<close>

theorem one_model_one_instance:
  assumes "configured s c"
  shows "\<exists>m d.
           defined_models (calls notebook s) = [m]
         \<and> entry_point m = ''entry_point.py'' \<and> source_dir m = ''./model''
         \<and> deployments (calls notebook s) = [(m, d)]
         \<and> initial_instance_count d = 1
         \<and> endpoint_name d = name m
         \<and> loaded_environ s ''DASHBOARD_SAGEMAKER_MODEL'' = Some (name m)"
  unfolding defined_models_run [OF assms] deployments_run [OF assms]
  using assms by (simp add: model_of_def configured_def)

text \<open>
  The deployment of the example session.
\<close>

theorem one_model_one_instance_example:
  "configured example_session example_config
   \<and> map (\<lambda>(m, d). (name m, entry_point m, endpoint_name d, initial_instance_count d))
         (deployments (calls notebook example_session))
       = [(''text-generation'', ''entry_point.py'', ''text-generation'', 1)]"
proof -
  have cfg: "configured example_session example_config"
    by (rule example_configured)
  from one_model_one_instance [OF cfg] show ?thesis
    using cfg by (auto simp: example_session_def loaded_environ_def)
qed

lemma last_word_2:
  "last_word (''aws ecs update-service --cluster '' @ cl @ '' --service '' @ sv
              @ '' --desired-count 2'') = ''2''"
  using last_word_append [of "''2''" "''aws ecs update-service --cluster '' @ cl @ '' --service '' @ sv
              @ '' --desired-count''"] by simp

lemma last_word_0:
  "last_word (''aws ecs update-service --cluster '' @ cl @ '' --service '' @ sv
              @ '' --desired-count 0'') = ''0''"
  using last_word_append [of "''0''" "''aws ecs update-service --cluster '' @ cl @ '' --service '' @ sv
              @ '' --desired-count''"] by simp

lemma operation_of_start:
  "operation_of (Shell (''aws ecs update-service --cluster '' @ cl @ '' --service '' @ sv
              @ '' --desired-count 2'')) = Some (UpdateService ''2'')"
  unfolding operation_of_def call.case last_word_2 by simp

lemma operation_of_stop:
  "operation_of (Shell (''aws ecs update-service --cluster '' @ cl @ '' --service '' @ sv
              @ '' --desired-count 0'')) = Some (UpdateService ''0'')"
  unfolding operation_of_def call.case last_word_0 by simp






text \<open>
  The desired counts of the example session.
\<close>

theorem desired_counts_example:
  "configured example_session example_config
   \<and> map desired_count (filter is_update_service (calls notebook example_session))
       = [Some ''2'', Some ''0'']"
  using desired_counts_two_then_zero [OF example_configured] example_configured by simp

lemma calls_cell_url:
  "calls (cell_url u a) s =
     (if u \<noteq> a then [Warn (cname_warning u a)] else []) @ [Print (''DASHBOARD_URL: https://'' @ u)]"
  by (simp add: calls_def cell_url_def nb_then_def nb_bind_def emit_def nb_return_def)

text \<open>
  Claim C10. At the final URL cell, for every pair of values of DASHBOARD_URL and
  DASHBOARD_ALB, the CNAME warning is emitted if and only if the two strings differ, and in
  every case the one line printed is \<^verbatim>\<open>DASHBOARD_URL: https://\<close> followed by the
  value of DASHBOARD_URL.
\<close>

theorem url_cell_warns_iff_unequal:
  "(\<exists>w. Warn w \<in> set (calls (cell_url u a) s)) = (u \<noteq> a)
   \<and> (Warn (cname_warning u a) \<in> set (calls (cell_url u a) s)) = (u \<noteq> a)
   \<and> filter is_print (calls (cell_url u a) s) = [Print (''DASHBOARD_URL: https://'' @ u)]
   \<and> fst (cell_url u a s) = Inr ()"
  unfolding calls_cell_url
  by (simp add: is_print_def cell_url_def nb_then_def nb_bind_def emit_def nb_return_def)

text \<open>
  The URL cell with a custom domain, and with the load balancer's own name.
\<close>

theorem url_cell_example:
  "(\<exists>w. Warn w \<in> set (calls (cell_url ''dashboard.example.com'' ''alb-1.elb.amazonaws.com'') example_session))
   \<and> \<not> (\<exists>w. Warn w \<in> set (calls (cell_url ''alb-1.elb.amazonaws.com'' ''alb-1.elb.amazonaws.com'') example_session))
   \<and> filter is_print (calls (cell_url ''alb-1.elb.amazonaws.com'' ''alb-1.elb.amazonaws.com'') example_session)
       = [Print ''DASHBOARD_URL: https://alb-1.elb.amazonaws.com'']"
  using url_cell_warns_iff_unequal [of "''dashboard.example.com''" "''alb-1.elb.amazonaws.com''" example_session]
        url_cell_warns_iff_unequal [of "''alb-1.elb.amazonaws.com''" "''alb-1.elb.amazonaws.com''" example_session]
  by simp

section \<open>Exceptions are not handled\<close>

lemma straightI:
  assumes "\<And>s r s'. m s = (r, s') \<Longrightarrow> fault s' = fault s \<and> prefix (trace s) (trace s') \<and> propagated s r s'"
    and "\<And>s v s'. m s = (Inr v, s') \<Longrightarrow> m (quiet s) = (Inr v, quiet s')"
    and "\<And>s e s'. m s = (Inl e, s') \<Longrightarrow> prefix (trace s') (trace (snd (m (quiet s))))"
  shows "straight m"
  unfolding straight_def using assms by blast

lemma straightD:
  assumes "straight m" "m s = (r, s')"
  shows "fault s' = fault s" "prefix (trace s) (trace s')" "propagated s r s'"
    "\<And>v. r = Inr v \<Longrightarrow> m (quiet s) = (Inr v, quiet s')"
    "\<And>e. r = Inl e \<Longrightarrow> prefix (trace s') (trace (snd (m (quiet s))))"
  using assms unfolding straight_def by blast+

lemma straight_return: "straight (nb_return v)"
  by (rule straightI) (auto simp: nb_return_def propagated_def unraised_def quiet_def)

lemma straight_external: "can_raise c \<Longrightarrow> straight (external c)"
  by (rule straightI)
     (auto simp: external_def propagated_def unraised_def quiet_def nth_append
           split: option.splits sum.splits dest: less_antisym)

lemma straight_emit: "\<not> can_raise c \<Longrightarrow> straight (emit c)"
  by (rule straightI)
     (auto simp: emit_def propagated_def unraised_def quiet_def nth_append
           split: option.splits sum.splits dest: less_antisym)

lemma straight_shell: "straight (shell cmd)"
  unfolding shell_def by (rule straight_emit) (simp add: can_raise_def)

lemma straight_os_environ: "straight (os_environ k)"
  by (rule straightI)
     (auto simp: os_environ_def propagated_def unraised_def quiet_def split: option.splits)

lemma straight_dotenv_filepath_exists: "straight dotenv_filepath_exists"
  by (rule straightI)
     (auto simp: dotenv_filepath_exists_def propagated_def unraised_def quiet_def)

lemma straight_utils_get_dashboard_url: "straight (utils_get_dashboard_url port)"
  by (rule straightI)
     (auto simp: utils_get_dashboard_url_def propagated_def unraised_def quiet_def)

lemma unraised_prefix:
  assumes "unraised f t lo hi" "prefix t t'" "hi \<le> length t"
  shows "unraised f t' lo hi"
proof -
  from assms(2) obtain zs where "t' = t @ zs" by (auto simp: prefix_def)
  with assms(1,3) show ?thesis by (auto simp: unraised_def nth_append)
qed

lemma unraised_join:
  assumes "unraised f t lo mid" "unraised f t mid hi"
  shows "unraised f t lo hi"
  using assms unfolding unraised_def by (metis not_less)

lemma propagated_trans:
  assumes p1: "propagated s (Inr v) s1" and p2: "propagated s1 r s2"
    and fl: "fault s1 = fault s"
    and t1: "prefix (trace s) (trace s1)" and t2: "prefix (trace s1) (trace s2)"
  shows "propagated s r s2"
proof -
  have l1: "length (trace s) \<le> length (trace s1)" and l2: "length (trace s1) \<le> length (trace s2)"
    using t1 t2 by (auto dest: prefix_length_le)
  have u1: "unraised (fault s) (trace s2) (length (trace s)) (length (trace s1))"
    using p1 unraised_prefix [OF _ t2] by (simp add: propagated_def)
  show ?thesis
  proof (cases r)
    case (Inr w)
    with p2 have "unraised (fault s) (trace s2) (length (trace s1)) (length (trace s2))"
      by (simp add: propagated_def fl)
    with u1 show ?thesis
      unfolding Inr propagated_def by (simp add: unraised_join)
  next
    case (Inl e)
    from p2 consider
      (key) k where "e = KeyError k" "environ s2 k = None"
        "unraised (fault s) (trace s2) (length (trace s1)) (length (trace s2))"
    | (raised) "length (trace s1) < length (trace s2)" "can_raise (last (trace s2))"
        "fault s (length (trace s2) - 1) = Some e"
        "unraised (fault s) (trace s2) (length (trace s1)) (length (trace s2) - 1)"
      unfolding Inl propagated_def by (auto simp: fl)
    then show ?thesis
    proof cases
      case key
      with u1 show ?thesis
        unfolding Inl propagated_def by (auto intro: unraised_join)
    next
      case raised
      with u1 l1 show ?thesis
        unfolding Inl propagated_def by (auto intro: unraised_join)
    qed
  qed
qed

lemma straight_utils_get_docker_run_command:
  "straight (utils_get_docker_run_command port image_name m d)"
  by (rule straightI)
     (auto simp: utils_get_docker_run_command_def propagated_def unraised_def quiet_def)

lemma straight_bind:
  assumes m: "straight m" and f: "\<And>v. straight (f v)"
  shows "straight (nb_bind m f)"
proof (rule straightI)
  fix s r s'
  assume run: "nb_bind m f s = (r, s')"
  obtain r1 s1 where ms: "m s = (r1, s1)" by (cases "m s")
  note M = straightD [OF m ms]
  show "fault s' = fault s \<and> prefix (trace s) (trace s') \<and> propagated s r s'"
  proof (cases r1)
    case (Inl e)
    with run ms have "r = Inl e" "s' = s1" by (simp_all add: nb_bind_def)
    with M(1-3) Inl show ?thesis by (simp add: propagated_def)
  next
    case (Inr v)
    with run ms have fs: "f v s1 = (r, s')" by (simp add: nb_bind_def)
    note F = straightD [OF f fs]
    from M(3) have "propagated s (Inr v) s1" by (simp add: Inr)
    from propagated_trans [OF this F(3) M(1) M(2) F(2)] F(1) M(1) M(2) F(2)
    show ?thesis by (auto intro: prefix_order.trans)
  qed
next
  fix s v s'
  assume run: "nb_bind m f s = (Inr v, s')"
  obtain r1 s1 where ms: "m s = (r1, s1)" by (cases "m s")
  show "nb_bind m f (quiet s) = (Inr v, quiet s')"
  proof (cases r1)
    case (Inl e)
    with run ms show ?thesis by (simp add: nb_bind_def)
  next
    case (Inr w)
    with run ms have fs: "f w s1 = (Inr v, s')" by (simp add: nb_bind_def)
    from straightD(4) [OF m ms Inr] straightD(4) [OF f fs refl]
    show ?thesis by (simp add: nb_bind_def)
  qed
next
  fix s e s'
  assume run: "nb_bind m f s = (Inl e, s')"
  obtain r1 s1 where ms: "m s = (r1, s1)" by (cases "m s")
  show "prefix (trace s') (trace (snd (nb_bind m f (quiet s))))"
  proof (cases r1)
    case (Inl e1)
    with run ms have s': "s' = s1" by (simp add: nb_bind_def)
    have p: "prefix (trace s1) (trace (snd (m (quiet s))))"
      by (rule straightD(5) [OF m ms Inl])
    obtain r0 s0 where m0: "m (quiet s) = (r0, s0)" by (cases "m (quiet s)")
    show ?thesis
    proof (cases r0)
      case (Inl e0)
      with m0 p s' show ?thesis by (simp add: nb_bind_def)
    next
      case (Inr v0)
      obtain r2 s2 where f0: "f v0 s0 = (r2, s2)" by (cases "f v0 s0")
      from straightD(2) [OF f f0] p m0 have "prefix (trace s1) (trace s2)"
        by (auto intro: prefix_order.trans)
      with m0 Inr f0 s' show ?thesis by (simp add: nb_bind_def)
    qed
  next
    case (Inr w)
    with run ms have fs: "f w s1 = (Inl e, s')" by (simp add: nb_bind_def)
    from straightD(4) [OF m ms Inr] straightD(5) [OF f fs refl]
    show ?thesis by (simp add: nb_bind_def)
  qed
qed

lemma straight_then: "straight m \<Longrightarrow> straight n \<Longrightarrow> straight (nb_then m n)"
  unfolding nb_then_def by (rule straight_bind)

lemma straight_load_dotenv: "straight load_dotenv"
  unfolding load_dotenv_def
proof (rule straight_then)
  show "straight (external LoadDotenv)"
    by (rule straight_external) (simp add: can_raise_def)
  show "straight (\<lambda>s. (Inr (), s\<lparr>environ := dotenv s ++ environ s\<rparr>))"
    by (rule straightI) (auto simp: propagated_def unraised_def quiet_def)
qed

lemma straight_get_execution_role: "straight get_execution_role"
  unfolding get_execution_role_def
proof (rule straight_then)
  show "straight (external GetExecutionRole)"
    by (rule straight_external) (simp add: can_raise_def)
  show "straight (\<lambda>s. (Inr (execution_role s), s))"
    by (rule straightI) (auto simp: propagated_def unraised_def quiet_def)
qed

lemma straight_case_prod:
  "(\<And>a b. straight (f a b)) \<Longrightarrow> straight (case p of (a, b) \<Rightarrow> f a b)"
  by (cases p) simp

lemma straight_if: "straight m \<Longrightarrow> straight n \<Longrightarrow> straight (if b then m else n)"
  by simp

lemmas straight_intros = straight_bind straight_then straight_return straight_shell
  straight_os_environ straight_dotenv_filepath_exists straight_utils_get_dashboard_url
  straight_utils_get_docker_run_command
  straight_load_dotenv straight_get_execution_role straight_case_prod straight_if
  straight_external straight_emit

lemma straight_cell_load_config: "straight cell_load_config"
  unfolding cell_load_config_def by (intro straight_intros)

lemma straight_cell_pretrained: "straight cell_pretrained"
  unfolding cell_pretrained_def by (intro straight_intros) (simp_all add: can_raise_def)

lemma straight_cell_upload: "straight cell_upload"
  unfolding cell_upload_def by (intro straight_intros)

lemma straight_cell_model: "straight (cell_model b)"
  unfolding cell_model_def Let_def by (intro straight_intros) (simp_all add: can_raise_def)

lemma straight_cell_deploy: "straight (cell_deploy n m)"
  unfolding cell_deploy_def by (intro straight_intros) (simp_all add: can_raise_def)

lemma straight_cell_build: "straight (cell_build i n)"
  unfolding cell_build_def by (intro straight_intros)

lemma straight_cell_run_development: "straight (cell_run_development p i)"
  unfolding cell_run_development_def Let_def by (intro straight_intros)

lemma straight_cell_run_test: "straight (cell_run_test p i)"
  unfolding cell_run_test_def Let_def by (intro straight_intros)

lemma straight_cell_ecr_identifiers: "straight cell_ecr_identifiers"
  unfolding cell_ecr_identifiers_def by (intro straight_intros)

lemma straight_cell_push: "straight (cell_push i a r d)"
  unfolding cell_push_def by (intro straight_intros)

lemma straight_cell_ecs_identifiers: "straight cell_ecs_identifiers"
  unfolding cell_ecs_identifiers_def by (intro straight_intros)

lemma straight_cell_service_start: "straight (cell_service_start c v)"
  unfolding cell_service_start_def by (intro straight_intros)

lemma straight_cell_url_identifiers: "straight cell_url_identifiers"
  unfolding cell_url_identifiers_def by (intro straight_intros)

lemma straight_cell_url: "straight (cell_url u a)"
  unfolding cell_url_def by (intro straight_intros) (simp_all add: can_raise_def)

lemma straight_cell_service_stop: "straight (cell_service_stop c v)"
  unfolding cell_service_stop_def by (intro straight_intros)

lemma straight_cell_delete: "straight (cell_delete p)"
  unfolding cell_delete_def by (intro straight_intros) (simp_all add: can_raise_def)

lemmas straight_cells = straight_cell_load_config straight_cell_pretrained straight_cell_upload
  straight_cell_model straight_cell_deploy straight_cell_build straight_cell_run_development
  straight_cell_run_test straight_cell_ecr_identifiers straight_cell_push
  straight_cell_ecs_identifiers straight_cell_service_start straight_cell_url_identifiers
  straight_cell_url straight_cell_service_stop straight_cell_delete

lemma straight_notebook: "straight notebook"
  unfolding notebook_def Let_def
  by (intro straight_bind straight_then straight_case_prod straight_cells)

lemma propagated_raised:
  assumes "propagated s r s'" "length (trace s) \<le> i" "i < length (trace s')"
    "can_raise (trace s' ! i)" "fault s i = Some e"
  shows "r = Inl e \<and> Suc i = length (trace s')"
proof (cases r)
  case (Inr v)
  with assms show ?thesis by (auto simp: propagated_def unraised_def)
next
  case (Inl e')
  from assms(1) consider
    (key) "unraised (fault s) (trace s') (length (trace s)) (length (trace s'))"
  | (raised) "fault s (length (trace s') - 1) = Some e'"
      "unraised (fault s) (trace s') (length (trace s)) (length (trace s') - 1)"
    unfolding Inl propagated_def by auto
  then show ?thesis
  proof cases
    case key
    with assms show ?thesis by (auto simp: unraised_def)
  next
    case raised
    from raised(2) assms(2-5) have "\<not> i < length (trace s') - 1"
      by (auto simp: unraised_def)
    with assms(3) have i: "i = length (trace s') - 1" by simp
    with raised(1) assms(3,5) Inl show ?thesis by simp
  qed
qed

text \<open>
  Claim C8. Nothing in the notebook catches, transforms or retries an error. In every run,
  whatever the calls raise: an exception raised by a call is the outcome of the run,
  unchanged, and that call is the last one made; conversely an exception that ends the run
  is the one its last call raised, or the KeyError of an environment variable that is not
  set; and the calls made are an initial part of the calls of the run in which nothing
  raises, so no call is made a second time.
\<close>

theorem raised_exception_propagates:
  assumes "notebook s = (r, s')"
  shows "prefix (trace s') (trace (snd (notebook (quiet s))))
       \<and> (\<forall>i e. length (trace s) \<le> i \<and> i < length (trace s') \<and> can_raise (trace s' ! i)
                  \<and> fault s i = Some e
               \<longrightarrow> r = Inl e \<and> Suc i = length (trace s'))
       \<and> (\<forall>e. r = Inl e \<longrightarrow>
               (\<exists>k. e = KeyError k \<and> environ s' k = None)
             \<or> (length (trace s) < length (trace s') \<and> can_raise (last (trace s'))
                \<and> fault s (length (trace s') - 1) = Some e))"
proof (intro conjI allI impI)
  note N = straightD [OF straight_notebook assms]
  show "prefix (trace s') (trace (snd (notebook (quiet s))))"
  proof (cases r)
    case (Inl e)
    then show ?thesis by (rule N(5))
  next
    case (Inr v)
    from N(4) [OF this] show ?thesis by (simp add: quiet_def)
  qed
  show "r = Inl e" "Suc i = length (trace s')"
    if "length (trace s) \<le> i \<and> i < length (trace s') \<and> can_raise (trace s' ! i)
        \<and> fault s i = Some e" for i e
    using propagated_raised [OF N(3), of i e] that by simp_all
  show "(\<exists>k. e = KeyError k \<and> environ s' k = None)
      \<or> (length (trace s) < length (trace s') \<and> can_raise (last (trace s'))
         \<and> fault s (length (trace s') - 1) = Some e)" if "r = Inl e" for e
    using N(3) that by (auto simp: propagated_def)
qed

lemma failing_run:
  "notebook failing_session =
     (Inl (Raised ''ResourceLimitExceeded''),
      failing_session\<lparr>trace :=
        [TokenizerFromPretrained ''distilgpt2'' ''./model_assets'',
         ModelFromPretrained ''distilgpt2'' ''./model_assets'',
         Shell ''(cd model_assets && tar -czf ../model_assets.tar.gz *)'',
         Shell ''aws s3 cp ./model_assets.tar.gz s3://dashboard-bucket'',
         GetExecutionRole,
         PyTorchModel (model_of example_session example_config),
         Deploy (model_of example_session example_config)
           \<lparr> endpoint_name = ''text-generation'', instance_type = ''ml.c5.xlarge'',
             initial_instance_count = 1 \<rparr>]\<rparr>)"
  unfolding notebook_def cell_defs
  by (simp add: nb_defs Let_def failing_session_def example_session_def example_config_def
      model_of_def)

text \<open>
  The example session with the deployment failing: the exception of the seventh call is
  the outcome, and the seven calls made are the first seven of the run without failure.
\<close>

theorem raised_exception_propagates_example:
  "fault failing_session 6 = Some (Raised ''ResourceLimitExceeded'')
   \<and> can_raise (trace (snd (notebook failing_session)) ! 6)
   \<and> fst (notebook failing_session) = Inl (Raised ''ResourceLimitExceeded'')
   \<and> length (trace (snd (notebook failing_session))) = 7
   \<and> prefix (trace (snd (notebook failing_session)))
        (trace (snd (notebook (quiet failing_session))))"
proof -
  note P = raised_exception_propagates [OF failing_run]
  have f: "fault failing_session 6 = Some (Raised ''ResourceLimitExceeded'')"
    by (simp add: failing_session_def)
  have c: "can_raise (trace (snd (notebook failing_session)) ! 6)"
    by (simp add: failing_run can_raise_def)
  from P f c show ?thesis
    by (simp add: failing_run)
qed

end
